theory Spec2Isabelle
  imports Main
begin

section \<open>Shared vocabulary\<close>

text \<open>
  Byte slices are lists of 8-bit characters. The package-level error values of the
  Go code are constructors of one datatype; \<open>ErrOther\<close> stands for any error value
  that comes from outside the package (a format's marshaling error, a connection's
  write error). Calls to \<open>log.Printf\<close> have no effect on any value the code
  computes and are left out.
\<close>

type_synonym bytes = string

datatype error =
    ErrUnsupportedFormat
  | ErrNotGetable
  | ErrDefaultFrameWatcherDone
  | ErrNoServer
  | ErrBufClosed
  | ErrOther string

text \<open>
  \<open>GenericDataFormat\<close> (marshaled.go, the interface of four methods): a value of
  the interface is the record of its methods. \<open>'d\<close> is the type of the data items
  (\<open>interface{}\<close> in Go).
\<close>

record 'd GenericDataFormat =
  MarshalGet :: "'d \<Rightarrow> error + bytes"
  MarshalInit :: "'d \<Rightarrow> error + bytes"
  MarshalItem :: "'d \<Rightarrow> error + bytes"
  FrameItem :: "bytes \<Rightarrow> error + bytes"

text \<open>
  An \<open>io.Writer\<close> is a reference \<open>'k\<close> into a world \<open>'w\<close> of connections;
  \<open>Write\<close> is a function of the reference, the bytes and the world, returning the
  error (\<open>None\<close> is Go's \<open>nil\<close>) and the world after the call. The byte count that
  \<open>Write\<close> also returns is discarded by every caller in marshaled.go.
\<close>

type_synonym ('k, 'w) io_Write = "'k \<Rightarrow> bytes \<Rightarrow> 'w \<Rightarrow> error option \<times> 'w"

section \<open>defaultFrameWatcher (marshaled.go)\<close>

record ('d, 'k) defaultFrameWatcher =
  dfw_format :: "'d GenericDataFormat"
  writers :: "'k list"

text \<open>
  The first loop of \<open>writeToAll\<close>: write the buffer to every writer in order,
  appending the index of each failed write to \<open>failed\<close>.
\<close>

fun write_each ::
  "('k, 'w) io_Write \<Rightarrow> bytes \<Rightarrow> nat \<Rightarrow> 'k list \<Rightarrow> nat list \<Rightarrow> 'w \<Rightarrow> nat list \<times> 'w" where
  "write_each wr buf i [] failed s = (failed, s)"
| "write_each wr buf i (w # ws) failed s =
     (case wr w buf s of
        (None, s') \<Rightarrow> write_each wr buf (Suc i) ws failed s'
      | (Some err, s') \<Rightarrow> write_each wr buf (Suc i) ws (failed @ [i]) s')"

text \<open>
  The second loop of \<open>writeToAll\<close> (and, over item watchers, of
  \<open>marshaledWatcher.emit\<close>): \<open>i\<close> is the loop index, \<open>f\<close> is \<open>failed[0]\<close> and
  \<open>fs\<close> is \<open>failed[1:]\<close>, \<open>okay\<close> the survivors so far, the fifth argument the
  elements the \<open>range\<close> has not visited yet and \<open>all\<close> the whole slice. The loop
  is entered only with a non-empty \<open>failed\<close> and breaks as soon as \<open>failed\<close> is
  empty, so \<open>failed[0]\<close> is never read out of range.
\<close>

fun compact_loop ::
  "nat \<Rightarrow> nat \<Rightarrow> nat list \<Rightarrow> 'a list \<Rightarrow> 'a list \<Rightarrow> 'a list \<Rightarrow> 'a list" where
  "compact_loop i f fs okay [] all = okay"
| "compact_loop i f fs okay (w # ws) all =
     (let okay1 = (if i \<noteq> f then okay @ [w] else okay) in
      if i \<ge> f then
        (case fs of
           [] \<Rightarrow> (if Suc i < length all then okay1 @ drop (Suc i) all else okay1)
         | f' # fs' \<Rightarrow> compact_loop (Suc i) f' fs' okay1 ws all)
      else compact_loop (Suc i) f fs okay1 ws all)"

definition writeToAll ::
  "('k, 'w) io_Write \<Rightarrow> bytes \<Rightarrow> ('d, 'k) defaultFrameWatcher \<Rightarrow> 'w
     \<Rightarrow> error option \<times> ('d, 'k) defaultFrameWatcher \<times> 'w" where
  "writeToAll wr buf d s =
     (case write_each wr buf 0 (writers d) [] s of
        (failed, s') \<Rightarrow>
          (case failed of
             [] \<Rightarrow> (None, d, s')
           | f # fs \<Rightarrow>
               (let d' = d\<lparr>writers := compact_loop 0 f fs [] (writers d) (writers d)\<rparr> in
                if length (writers d') = 0 then (Some ErrDefaultFrameWatcherDone, d', s')
                else (None, d', s'))))"

definition HandleItem ::
  "('k, 'w) io_Write \<Rightarrow> bytes \<Rightarrow> ('d, 'k) defaultFrameWatcher \<Rightarrow> 'w
     \<Rightarrow> error option \<times> ('d, 'k) defaultFrameWatcher \<times> 'w" where
  "HandleItem wr item d s =
     (if length (writers d) = 0 then (Some ErrDefaultFrameWatcherDone, d, s)
      else
        (case FrameItem (dfw_format d) item of
           Inl err \<Rightarrow> (Some err, d, s)
         | Inr buf \<Rightarrow> writeToAll wr buf d s))"

text \<open>
  \<open>defaultFrameWatcher.init\<close>: \<open>data\<close> is the result of \<open>GetInit()\<close>, \<open>None\<close>
  for \<open>nil\<close>.
\<close>

definition defaultFrameWatcher_init ::
  "('k, 'w) io_Write \<Rightarrow> 'd option \<Rightarrow> 'k \<Rightarrow> ('d, 'k) defaultFrameWatcher \<Rightarrow> 'w
     \<Rightarrow> error option \<times> ('d, 'k) defaultFrameWatcher \<times> 'w" where
  "defaultFrameWatcher_init wr data w d s =
     (case data of
        None \<Rightarrow> (None, d\<lparr>writers := writers d @ [w]\<rparr>, s)
      | Some x \<Rightarrow>
          (case MarshalInit (dfw_format d) x of
             Inl err \<Rightarrow> (Some err, d, s)
           | Inr buf \<Rightarrow>
               (case FrameItem (dfw_format d) buf of
                  Inl err \<Rightarrow> (Some err, d, s)
                | Inr buf' \<Rightarrow>
                    (case wr w buf' s of
                       (Some err, s') \<Rightarrow> (Some err, d, s')
                     | (None, s') \<Rightarrow> (None, d\<lparr>writers := writers d @ [w]\<rparr>, s')))))"

text \<open>
  The words of the specification about one fan-out call: the world in which the write
  to the sink at index \<open>j\<close> happens, and whether that write fails.
\<close>

fun world_at :: "('k, 'w) io_Write \<Rightarrow> bytes \<Rightarrow> 'k list \<Rightarrow> 'w \<Rightarrow> nat \<Rightarrow> 'w" where
  "world_at wr buf ws s 0 = s"
| "world_at wr buf [] s (Suc j) = s"
| "world_at wr buf (w # ws) s (Suc j) = world_at wr buf ws (snd (wr w buf s)) j"

definition write_fails :: "('k, 'w) io_Write \<Rightarrow> bytes \<Rightarrow> 'k list \<Rightarrow> 'w \<Rightarrow> nat \<Rightarrow> bool" where
  "write_fails wr buf ws s j =
     (j < length ws \<and> fst (wr (ws ! j) buf (world_at wr buf ws s j)) \<noteq> None)"

text \<open>
  A world of connections to evaluate the code on: the list of the connections that are
  broken, and the log of what the others received.
\<close>

type_synonym demo_world = "nat list \<times> (nat \<times> bytes) list"

definition demo_Write :: "(nat, demo_world) io_Write" where
  "demo_Write k buf s =
     (if k \<in> set (fst s) then (Some (ErrOther ''broken pipe''), s)
      else (None, (fst s, snd s @ [(k, buf)])))"

text \<open>
  A format over natural numbers: item \<open>0\<close> cannot be marshaled, and the marshaled
  item \<open>!\<close> cannot be framed.
\<close>

definition demo_format :: "nat GenericDataFormat" where
  "demo_format =
     \<lparr>MarshalGet = (\<lambda>n. Inr (replicate n CHR ''g'')),
      MarshalInit = (\<lambda>n. Inr (replicate n CHR ''i'')),
      MarshalItem = (\<lambda>n. if n = 0 then Inl (ErrOther ''marshal'')
                          else if n = 1 then Inr ''!'' else Inr (replicate n CHR ''x'')),
      FrameItem = (\<lambda>b. if b = ''!'' then Inl (ErrOther ''frame'') else Inr (b @ '';''))\<rparr>"

section \<open>marshaledWatcher (marshaled.go)\<close>

text \<open>
  \<open>GenericDataSource\<close>: what its methods return when the multiplexer calls them
  (\<open>None\<close> is \<open>nil\<close>), and how many times \<open>Watch\<close> has been called on it. The
  only watcher ever passed to \<open>Watch\<close> is the multiplexer's \<open>emit\<close>, so a call
  of \<open>Watch\<close> is one more registration of that callback. \<open>'t\<close> is the type of
  text templates.
\<close>

record ('d, 't) GenericDataSource =
  src_Get :: "'d option"
  src_GetInit :: "'d option"
  src_TextTemplate :: "'t option"
  src_Watch_calls :: nat

definition src_Watch :: "('d, 't) GenericDataSource \<Rightarrow> ('d, 't) GenericDataSource" where
  "src_Watch src = src\<lparr>src_Watch_calls := Suc (src_Watch_calls src)\<rparr>"

text \<open>
  The only \<open>ItemWatcher\<close> that marshaled.go ever appends to \<open>gw.watchers\<close> is
  \<open>&gw.dfw\<close>, the pointer to the channel's own frame watcher.
\<close>

datatype ItemWatcher = OwnFrameWatcher

text \<open>
  The \<open>source\<close> field of the Go struct is the same interface value as the
  multiplexer's; the model passes the source to \<open>init\<close> instead of storing a copy.
\<close>

record ('d, 'k) marshaledWatcher =
  gw_format :: "'d GenericDataFormat"
  dfw :: "('d, 'k) defaultFrameWatcher"
  watchers :: "ItemWatcher list"

definition newMarshaledWatcher :: "'d GenericDataFormat \<Rightarrow> ('d, 'k) marshaledWatcher" where
  "newMarshaledWatcher format =
     \<lparr>gw_format = format, dfw = \<lparr>dfw_format = format, writers = []\<rparr>, watchers = []\<rparr>"

definition marshaledWatcher_init ::
  "('k, 'w) io_Write \<Rightarrow> ('d, 't) GenericDataSource \<Rightarrow> 'k \<Rightarrow> ('d, 'k) marshaledWatcher \<Rightarrow> 'w
     \<Rightarrow> error option \<times> ('d, 'k) marshaledWatcher \<times> 'w" where
  "marshaledWatcher_init wr src w gw s =
     (case defaultFrameWatcher_init wr (src_GetInit src) w (dfw gw) s of
        (Some err, d', s') \<Rightarrow> (Some err, gw\<lparr>dfw := d'\<rparr>, s')
      | (None, d', s') \<Rightarrow>
          (if length (writers d') = 1
           then (None, gw\<lparr>dfw := d', watchers := watchers gw @ [OwnFrameWatcher]\<rparr>, s')
           else (None, gw\<lparr>dfw := d'\<rparr>, s')))"

text \<open>
  The first loop of \<open>marshaledWatcher.emit\<close>: every element of \<open>gw.watchers\<close>
  points to the same frame watcher, which each call of \<open>HandleItem\<close> updates.
\<close>

fun handle_each ::
  "('k, 'w) io_Write \<Rightarrow> bytes \<Rightarrow> nat \<Rightarrow> ItemWatcher list \<Rightarrow> nat list
     \<Rightarrow> ('d, 'k) defaultFrameWatcher \<Rightarrow> 'w \<Rightarrow> nat list \<times> ('d, 'k) defaultFrameWatcher \<times> 'w" where
  "handle_each wr item i [] failed d s = (failed, d, s)"
| "handle_each wr item i (iw # iws) failed d s =
     (case HandleItem wr item d s of
        (None, d', s') \<Rightarrow> handle_each wr item (Suc i) iws failed d' s'
      | (Some err, d', s') \<Rightarrow> handle_each wr item (Suc i) iws (failed @ [i]) d' s')"

definition marshaledWatcher_emit ::
  "('k, 'w) io_Write \<Rightarrow> 'd \<Rightarrow> ('d, 'k) marshaledWatcher \<Rightarrow> 'w
     \<Rightarrow> bool \<times> ('d, 'k) marshaledWatcher \<times> 'w" where
  "marshaledWatcher_emit wr data gw s =
     (if length (watchers gw) = 0 then (False, gw, s)
      else
        (case MarshalItem (gw_format gw) data of
           Inl err \<Rightarrow> (False, gw, s)
         | Inr item \<Rightarrow>
             (case handle_each wr item 0 (watchers gw) [] (dfw gw) s of
                (failed, d', s') \<Rightarrow>
                  (case failed of
                     [] \<Rightarrow> (True, gw\<lparr>dfw := d'\<rparr>, s')
                   | f # fs \<Rightarrow>
                       (let gw' = gw\<lparr>dfw := d',
                              watchers := compact_loop 0 f fs [] (watchers gw) (watchers gw)\<rparr>
                        in (length (watchers gw') \<noteq> 0, gw', s'))))))"

section \<open>MarshaledDataSource (marshaled.go)\<close>

text \<open>
  \<open>strings.ToLower\<close> on ASCII strings: the letters \<open>A\<close> to \<open>Z\<close> move to
  \<open>a\<close> to \<open>z\<close>, every other byte stays. (Format names outside ASCII are not
  modelled.)
\<close>

definition lower_byte :: "char \<Rightarrow> char" where
  "lower_byte c =
     (if 65 \<le> (of_char c :: nat) \<and> (of_char c :: nat) \<le> 90
      then char_of ((of_char c :: nat) + 32) else c)"

definition ToLower :: "string \<Rightarrow> string" where
  "ToLower s = map lower_byte s"


text \<open>
  A Go map is a partial function; the maps of formats are taken to hold no \<open>nil\<close>
  interface value, so that \<open>formats["json"] == nil\<close> says that the key is absent.
  The order in which a \<open>range\<close> over a map visits its keys is not specified by Go: each
  function with such a loop takes the order as the list \<open>order\<close> of the keys.
\<close>

record ('d, 'k, 't) MarshaledDataSource =
  source :: "('d, 't) GenericDataSource"
  formats :: "string \<rightharpoonup> 'd GenericDataFormat"
  formatNames :: "string list"
  mds_watchers :: "string \<rightharpoonup> ('d, 'k) marshaledWatcher"
  watching :: bool

fun range_formats ::
  "(string \<rightharpoonup> 'd GenericDataFormat) \<Rightarrow> string list
     \<Rightarrow> string list \<times> (string \<rightharpoonup> ('d, 'k) marshaledWatcher)
     \<Rightarrow> string list \<times> (string \<rightharpoonup> ('d, 'k) marshaledWatcher)" where
  "range_formats fmts [] acc = acc"
| "range_formats fmts (name # order) (names, ws) =
     (case fmts name of
        None \<Rightarrow> range_formats fmts order (names, ws)
      | Some format \<Rightarrow>
          range_formats fmts order (names @ [name], ws(name \<mapsto> newMarshaledWatcher format)))"

text \<open>
  \<open>LDJSONMarshal\<close> and \<open>NewTemplatedMarshal\<close> are declared in other files of
  the package and are parameters here.
\<close>

definition NewMarshaledDataSource ::
  "'d GenericDataFormat \<Rightarrow> ('t \<Rightarrow> 'd GenericDataFormat) \<Rightarrow> string list
     \<Rightarrow> ('d, 't) GenericDataSource \<Rightarrow> (string \<rightharpoonup> 'd GenericDataFormat)
     \<Rightarrow> ('d, 'k, 't) MarshaledDataSource" where
  "NewMarshaledDataSource LDJSONMarshal NewTemplatedMarshal order src fmts =
     (let std =
            (if fmts ''json'' = None
             then ([''json''], [''json'' \<mapsto> newMarshaledWatcher LDJSONMarshal])
             else ([], Map.empty));
          txt =
            (case src_TextTemplate src of
               None \<Rightarrow> std
             | Some tt \<Rightarrow>
                 (if fmts ''text'' = None
                  then (fst std @ [''text''],
                        (snd std)(''text'' \<mapsto> newMarshaledWatcher (NewTemplatedMarshal tt)))
                  else std));
          fin = range_formats fmts order txt
      in \<lparr>source = src, formats = fmts, formatNames = fst fin, mds_watchers = snd fin,
          watching = False\<rparr>)"

definition Formats :: "('d, 'k, 't) MarshaledDataSource \<Rightarrow> string list" where
  "Formats mds = formatNames mds"

definition Get ::
  "('k, 'w) io_Write \<Rightarrow> string \<Rightarrow> 'k \<Rightarrow> ('d, 'k, 't) MarshaledDataSource \<Rightarrow> 'w
     \<Rightarrow> error option \<times> 'w" where
  "Get wr formatName w mds s =
     (case formats mds (ToLower formatName) of
        None \<Rightarrow> (Some ErrUnsupportedFormat, s)
      | Some format \<Rightarrow>
          (case src_Get (source mds) of
             None \<Rightarrow> (Some ErrNotGetable, s)
           | Some data \<Rightarrow>
               (case MarshalGet format data of
                  Inl err \<Rightarrow> (Some err, s)
                | Inr buf \<Rightarrow> wr w buf s)))"

definition Watch ::
  "('k, 'w) io_Write \<Rightarrow> string \<Rightarrow> 'k \<Rightarrow> ('d, 'k, 't) MarshaledDataSource \<Rightarrow> 'w
     \<Rightarrow> error option \<times> ('d, 'k, 't) MarshaledDataSource \<times> 'w" where
  "Watch wr formatName w mds s =
     (case mds_watchers mds (ToLower formatName) of
        None \<Rightarrow> (Some ErrUnsupportedFormat, mds, s)
      | Some watcher \<Rightarrow>
          (case marshaledWatcher_init wr (source mds) w watcher s of
             (Some err, watcher', s') \<Rightarrow>
               (Some err,
                mds\<lparr>mds_watchers := (mds_watchers mds)(ToLower formatName \<mapsto> watcher')\<rparr>, s')
           | (None, watcher', s') \<Rightarrow>
               (let mds1 =
                      mds\<lparr>mds_watchers := (mds_watchers mds)(ToLower formatName \<mapsto> watcher')\<rparr>
                in if \<not> watching mds1
                   then (None, mds1\<lparr>source := src_Watch (source mds1), watching := True\<rparr>, s')
                   else (None, mds1, s'))))"



text \<open>A source without text template, and the formats the package would supply.\<close>

definition demo_source :: "(nat, unit) GenericDataSource" where
  "demo_source =
     \<lparr>src_Get = Some 3, src_GetInit = None, src_TextTemplate = None, src_Watch_calls = 0\<rparr>"

definition demo_mds :: "(nat, nat, unit) MarshaledDataSource" where
  "demo_mds = NewMarshaledDataSource demo_format (\<lambda>_. demo_format) [] demo_source Map.empty"

section \<open>chanBuf (protocol/chan\_buf.go)\<close>

text \<open>
  The embedded \<open>bytes.Buffer\<close> is the list of its unread bytes (nothing in the file
  reads from it, so that is all it was written). \<open>ready\<close> is the channel the buffer
  sends itself on: the model keeps the number of sends. The slice \<open>p\<close> is its
  contents and its capacity. Each method is one step: the mutex serialises the bodies,
  and the send that follows \<open>Unlock\<close> in \<open>Write\<close> is part of the step of that
  \<open>Write\<close>.
\<close>

record chanBuf =
  Buffer :: bytes
  ready :: nat
  closed :: bool
  pending :: bool
  p :: bytes
  p_cap :: nat

definition close :: "chanBuf \<Rightarrow> chanBuf" where
  "close cb = cb\<lparr>closed := True\<rparr>"

definition Reset :: "chanBuf \<Rightarrow> chanBuf" where
  "Reset cb = cb\<lparr>pending := False, Buffer := []\<rparr>"

definition Write :: "bytes \<Rightarrow> chanBuf \<Rightarrow> (nat \<times> error option) \<times> chanBuf" where
  "Write q cb =
     (if closed cb then ((0, Some ErrBufClosed), cb)
      else
        (let n = length q;
             cb1 = cb\<lparr>Buffer := Buffer cb @ q\<rparr>;
             send = (n > 0 \<and> \<not> pending cb1);
             cb2 = (if send then cb1\<lparr>pending := True\<rparr> else cb1);
             cb3 = (if send then cb2\<lparr>ready := Suc (ready cb2)\<rparr> else cb2)
         in ((n, None), cb3)))"

definition drain :: "chanBuf \<Rightarrow> bytes \<times> chanBuf" where
  "drain cb =
     (let cb1 = (if p_cap cb < length (Buffer cb)
                 then cb\<lparr>p := replicate (length (Buffer cb)) (CHR 0x00),
                         p_cap := length (Buffer cb)\<rparr>
                 else cb);
          n = min (p_cap cb1) (length (Buffer cb1));
          cb2 = cb1\<lparr>p := take n (Buffer cb1)\<rparr>;
          cb3 = Reset cb2
      in (p cb3, cb3))"

text \<open>Any sequence of \<open>Write\<close> calls, one after the other.\<close>

fun Writes :: "bytes list \<Rightarrow> chanBuf \<Rightarrow> chanBuf" where
  "Writes [] cb = cb"
| "Writes (q # qs) cb = Writes qs (snd (Write q cb))"

definition demo_buf :: chanBuf where
  "demo_buf = \<lparr>Buffer = [], ready = 0, closed = False, pending = False, p = [], p_cap = 0\<rparr>"

section \<open>indirectServer (serve.go)\<close>

text \<open>
  \<open>is.cs\<close> points to the variable \<open>theServer\<close>; what the methods read is the value
  of that variable, \<open>None\<close> while it is \<open>nil\<close>. \<open>ConfiguredServer\<close> is declared in
  another file of the package: its three methods are parameters. \<open>Addr\<close> returns a
  \<open>net.Addr\<close>, which is \<open>nil\<close> or an address; the other two return an error.
\<close>

definition indirectServer_Addr :: "('cs \<Rightarrow> 'a option) \<Rightarrow> 'cs option \<Rightarrow> 'a option" where
  "indirectServer_Addr cs_Addr cs =
     (case cs of None \<Rightarrow> None | Some srv \<Rightarrow> cs_Addr srv)"

definition indirectServer_StartOn ::
  "('cs \<Rightarrow> string \<Rightarrow> error option \<times> 'cs) \<Rightarrow> 'cs option \<Rightarrow> string \<Rightarrow> error option \<times> 'cs option" where
  "indirectServer_StartOn cs_StartOn cs laddr =
     (case cs of
        None \<Rightarrow> (Some ErrNoServer, None)
      | Some srv \<Rightarrow> (case cs_StartOn srv laddr of (err, srv') \<Rightarrow> (err, Some srv')))"

definition indirectServer_Stop ::
  "('cs \<Rightarrow> error option \<times> 'cs) \<Rightarrow> 'cs option \<Rightarrow> error option \<times> 'cs option" where
  "indirectServer_Stop cs_Stop cs =
     (case cs of
        None \<Rightarrow> (Some ErrNoServer, None)
      | Some srv \<Rightarrow> (case cs_Stop srv of (err, srv') \<Rightarrow> (err, Some srv')))"

text \<open>
  A configured server to evaluate on: its state is the address it listens on, if any.
\<close>

definition demo_Addr :: "string option \<Rightarrow> string option" where
  "demo_Addr srv = srv"

definition demo_StartOn :: "string option \<Rightarrow> string \<Rightarrow> error option \<times> string option" where
  "demo_StartOn srv laddr =
     (case srv of None \<Rightarrow> (None, Some laddr) | Some a \<Rightarrow> (Some (ErrOther ''started''), srv))"

definition demo_Stop :: "string option \<Rightarrow> error option \<times> string option" where
  "demo_Stop srv =
     (case srv of None \<Rightarrow> (Some (ErrOther ''stopped''), srv) | Some a \<Rightarrow> (None, None))"

section \<open>The protocol front door (serve.go)\<close>

text \<open>
  \<open>respDetector\<close> builds a \<open>stacked.Detector\<close> from three fields; the handler it
  names serves the connection as a RESP connection, and the other handler of
  \<open>NewServer\<close> is \<open>stacked.DefaultHTTPHandler\<close>. \<open>resp.IsFirstByteRespTag\<close>
  is declared in another package of the repository and is a parameter.
\<close>

datatype handler = RespHandler | HTTPHandler

record Detector =
  Needed :: nat
  Test :: "bytes \<Rightarrow> bool"
  Handler :: handler

definition respDetector :: "(bytes \<Rightarrow> bool) \<Rightarrow> Detector" where
  "respDetector IsFirstByteRespTag =
     \<lparr>Needed = 1, Test = IsFirstByteRespTag, Handler = RespHandler\<rparr>"

text \<open>
  Modelled from the spec: the buffered reader that the front door hands to the handler
  with the connection is not in the source files. It holds the bytes that were peeked
  and not yet read, and the bytes that the connection has still to deliver.
\<close>

record bufio_Reader =
  buffered :: bytes
  conn :: bytes

text \<open>
  Modelled from the spec: a fresh reader over an accepted connection has peeked nothing.
\<close>

definition NewReader :: "bytes \<Rightarrow> bufio_Reader" where
  "NewReader stream = \<lparr>buffered = [], conn = stream\<rparr>"

text \<open>
  Modelled from the spec: peeking takes from the connection only the bytes that are
  missing for \<open>n\<close> buffered bytes, and consumes none of them.
\<close>

definition Peek :: "nat \<Rightarrow> bufio_Reader \<Rightarrow> bytes \<times> bufio_Reader" where
  "Peek n r =
     (let need = n - length (buffered r);
          r' = r\<lparr>buffered := buffered r @ take need (conn r), conn := drop need (conn r)\<rparr>
      in (take n (buffered r'), r'))"

text \<open>
  Modelled from the spec: the input stream of the chosen handler is the peeked bytes
  followed by the rest of the connection.
\<close>

definition input_stream :: "bufio_Reader \<Rightarrow> bytes" where
  "input_stream r = buffered r @ conn r"

text \<open>
  Modelled from the spec: the dispatch of the \<open>stacked\<close> server, which is not in the
  source files. Each detector peeks the bytes it needs; the connection goes to the
  handler of the first detector whose test matches them, and to the default handler
  when none does.
\<close>

fun dispatch :: "Detector list \<Rightarrow> handler \<Rightarrow> bufio_Reader \<Rightarrow> handler \<times> bufio_Reader" where
  "dispatch [] dflt r = (dflt, r)"
| "dispatch (d # ds) dflt r =
     (case Peek (Needed d) r of
        (b, r') \<Rightarrow>
          (if length b = Needed d \<and> Test d b then (Handler d, r') else dispatch ds dflt r'))"

text \<open>
  \<open>NewServer\<close> stacks the RESP detector on the default HTTP handler; the model gives
  what becomes of an accepted connection that delivers \<open>stream\<close>.
\<close>

definition NewServer :: "(bytes \<Rightarrow> bool) \<Rightarrow> bytes \<Rightarrow> handler \<times> bufio_Reader" where
  "NewServer IsFirstByteRespTag stream =
     dispatch [respDetector IsFirstByteRespTag] HTTPHandler (NewReader stream)"

section \<open>States to evaluate the code on\<close>

text \<open>A frame watcher with four connections attached.\<close>

definition demo_dfw :: "(nat, nat) defaultFrameWatcher" where
  "demo_dfw = \<lparr>dfw_format = demo_format, writers = [10, 11, 12, 13]\<rparr>"

text \<open>A frame watcher with one connection attached.\<close>

definition demo_dfw1 :: "(nat, nat) defaultFrameWatcher" where
  "demo_dfw1 = \<lparr>dfw_format = demo_format, writers = [10]\<rparr>"

text \<open>
  A format channel after the attach of connection \<open>10\<close>; the same channel after the
  emit of an item that cannot be framed; and that channel after the attach of
  connection \<open>11\<close>.
\<close>

definition demo_gw :: "(nat, nat) marshaledWatcher" where
  "demo_gw =
     fst (snd (marshaledWatcher_init demo_Write demo_source 10
                 (newMarshaledWatcher demo_format) ([], [])))"

definition demo_gw_unframed :: "(nat, nat) marshaledWatcher" where
  "demo_gw_unframed = fst (snd (marshaledWatcher_emit demo_Write 1 demo_gw ([], [])))"

definition demo_gw_reattached :: "(nat, nat) marshaledWatcher" where
  "demo_gw_reattached =
     fst (snd (marshaledWatcher_init demo_Write demo_source 11 demo_gw_unframed ([], [])))"




section \<open>The compaction loop\<close>

lemma compact_loop_nths:
  "sorted_wrt (<) (f # fs) \<Longrightarrow> i \<le> f \<Longrightarrow> \<forall>x \<in> set (f # fs). x < i + length ws \<Longrightarrow>
   all = pre @ ws \<Longrightarrow> length pre = i \<Longrightarrow>
   compact_loop i f fs okay ws all = okay @ nths ws {j. i + j \<notin> set (f # fs)}"
proof (induction ws arbitrary: i f fs okay pre)
  case Nil
  then show ?case by simp
next
  case (Cons w ws)
  show ?case
  proof (cases "i = f")
    case False
    with Cons.prems have lt: "i < f" by simp
    have notin: "i \<notin> set (f # fs)" using Cons.prems(1) lt by auto
    have step: "compact_loop (Suc i) f fs (okay @ [w]) ws all =
        (okay @ [w]) @ nths ws {j. Suc i + j \<notin> set (f # fs)}"
      using Cons.prems lt by (intro Cons.IH[where pre = "pre @ [w]"]) auto
    show ?thesis using lt notin step by (simp add: nths_Cons)
  next
    case True
    show ?thesis
    proof (cases fs)
      case Nil
      have all_kept: "{j. Suc (f + j) \<noteq> f} = UNIV" by auto
      have dr: "drop (Suc f) all = ws" using Cons.prems True by simp
      show ?thesis using True Nil dr Cons.prems(4,5)
        by (auto simp: nths_Cons all_kept nths_all)
    next
      case (Cons f' fs')
      have lt: "f < f'" using Cons.prems(1) Cons by simp
      have gt: "\<forall>x \<in> set (f' # fs'). f < x" using Cons.prems(1) Cons by auto
      have step: "compact_loop (Suc i) f' fs' okay ws all =
          okay @ nths ws {j. Suc i + j \<notin> set (f' # fs')}"
        using Cons.prems Cons lt True by (intro Cons.IH[where pre = "pre @ [w]"]) auto
      have same: "{j. Suc i + j \<notin> set (f' # fs')} = {j. Suc (i + j) \<notin> set (f # f' # fs')}"
        using True by auto
      show ?thesis using True Cons step same by (simp add: nths_Cons)
    qed
  qed
qed

section \<open>One fan-out call\<close>

lemma write_fails_Cons_0:
  "write_fails wr buf (w # ws) s 0 = (fst (wr w buf s) \<noteq> None)"
  by (simp add: write_fails_def)

lemma write_fails_Cons_Suc:
  "write_fails wr buf (w # ws) s (Suc j) = write_fails wr buf ws (snd (wr w buf s)) j"
  by (simp add: write_fails_def)

lemma upt_0_Suc_shift: "[0..<Suc n] = 0 # map Suc [0..<n]"
  by (simp add: upt_conv_Cons map_Suc_upt del: upt_Suc)

lemma write_each_failed:
  "fst (write_each wr buf i ws acc s) =
     acc @ map ((+) i) (filter (write_fails wr buf ws s) [0..<length ws])"
proof (induction ws arbitrary: i acc s)
  case Nil
  then show ?case by simp
next
  case (Cons w ws)
  have shift: "map ((+) i) (filter (write_fails wr buf (w # ws) s) (map Suc [0..<length ws])) =
      map ((+) (Suc i)) (filter (write_fails wr buf ws (snd (wr w buf s))) [0..<length ws])"
    by (simp add: filter_map o_def write_fails_Cons_Suc)
  show ?case
  proof (cases "wr w buf s")
    case (Pair e s')
    show ?thesis
    proof (cases e)
      case None
      then show ?thesis using Pair Cons.IH[of "Suc i" acc s'] shift
        by (simp add: upt_0_Suc_shift write_fails_Cons_0 del: upt_Suc)
    next
      case (Some err)
      then show ?thesis using Pair Cons.IH[of "Suc i" "acc @ [i]" s'] shift
        by (simp add: upt_0_Suc_shift write_fails_Cons_0 del: upt_Suc)
    qed
  qed
qed

lemma write_each_0:
  "fst (write_each wr buf 0 ws [] s) = filter (write_fails wr buf ws s) [0..<length ws]"
proof -
  have "(+) (0::nat) = (\<lambda>x. x)" by auto
  then show ?thesis by (simp add: write_each_failed)
qed

lemma set_failed:
  "set (filter (write_fails wr buf ws s) [0..<length ws]) = {j. write_fails wr buf ws s j}"
  by (auto simp: write_fails_def)

lemma writeToAll_writers:
  "writers (fst (snd (writeToAll wr buf d s))) =
     nths (writers d) (- {j. write_fails wr buf (writers d) s j})"
proof (cases "write_each wr buf 0 (writers d) [] s")
  case (Pair failed s')
  have fl: "failed = filter (write_fails wr buf (writers d) s) [0..<length (writers d)]"
    using write_each_0[of wr buf "writers d" s] Pair by simp
  have st: "set failed = {j. write_fails wr buf (writers d) s j}"
    using fl set_failed by metis
  show ?thesis
  proof (cases failed)
    case Nil
    then have "{j. write_fails wr buf (writers d) s j} = {}" using st by simp
    then show ?thesis using Pair Nil by (simp add: writeToAll_def nths_all)
  next
    case (Cons f fs)
    have srt: "sorted_wrt (<) (f # fs)"
      using fl Cons sorted_wrt_filter[OF sorted_wrt_upt] by metis
    have bnd: "\<forall>x \<in> set (f # fs). x < 0 + length (writers d)"
      using fl Cons by (metis add_0 atLeastLessThan_iff filter_is_subset set_upt subsetD)
    have "compact_loop 0 f fs [] (writers d) (writers d) =
        [] @ nths (writers d) {j. 0 + j \<notin> set (f # fs)}"
      using srt bnd by (intro compact_loop_nths[where pre = "[]"]) auto
    moreover have "{j. 0 + j \<notin> set (f # fs)} = - {j. write_fails wr buf (writers d) s j}"
      using st Cons by auto
    ultimately show ?thesis using Pair Cons by (simp add: writeToAll_def Let_def)
  qed
qed

lemma card_failed:
  "length (nths ws (- {j. write_fails wr buf ws s j})) =
     length ws - card {j. write_fails wr buf ws s j}"
proof -
  let ?F = "{j. write_fails wr buf ws s j}"
  have sub: "?F \<subseteq> {..<length ws}" by (auto simp: write_fails_def)
  have "{i. i < length ws \<and> i \<in> - ?F} = {..<length ws} - ?F" by auto
  then have "length (nths ws (- ?F)) = card ({..<length ws} - ?F)"
    by (simp add: length_nths)
  also have "\<dots> = card {..<length ws} - card ?F"
    using sub by (intro card_Diff_subset) (auto intro: finite_subset)
  finally show ?thesis by simp
qed

lemma writeToAll_error:
  "fst (writeToAll wr buf d s) =
     (if writers (fst (snd (writeToAll wr buf d s))) = [] \<and> writers d \<noteq> []
      then Some ErrDefaultFrameWatcherDone else None)"
proof (cases "write_each wr buf 0 (writers d) [] s")
  case (Pair failed s')
  show ?thesis
  proof (cases failed)
    case Nil
    then show ?thesis using Pair by (simp add: writeToAll_def)
  next
    case (Cons f fs)
    have "writers d \<noteq> []"
      using Pair Cons by (cases "writers d") auto
    then show ?thesis using Pair Cons by (simp add: writeToAll_def Let_def)
  qed
qed

lemma HandleItem_writers:
  "FrameItem (dfw_format d) item = Inr buf \<Longrightarrow>
   writers (fst (snd (HandleItem wr item d s))) =
     nths (writers d) (- {j. write_fails wr buf (writers d) s j})"
  by (cases "writers d = []") (simp_all add: HandleItem_def writeToAll_writers)

text \<open>
  Claim C3. One call of \<open>writeToAll\<close> on a fan-out with sink list \<open>S\<close> of length
  \<open>n\<close>, where \<open>F\<close> is the set of the indices whose write fails during the call,
  leaves the sink list \<open>S\<close> with exactly the indices of \<open>F\<close> removed, the
  survivors in their order (\<open>nths S (- F)\<close>), of length \<open>n - |F|\<close>; and so does
  one call of \<open>HandleItem\<close> whose item is framed to the buffer written.
\<close>

theorem fanout_compaction:
  "writers (fst (snd (writeToAll wr buf d s))) =
     nths (writers d) (- {j. write_fails wr buf (writers d) s j}) \<and>
   length (writers (fst (snd (writeToAll wr buf d s)))) =
     length (writers d) - card {j. write_fails wr buf (writers d) s j} \<and>
   (FrameItem (dfw_format d) item = Inr buf \<longrightarrow>
      writers (fst (snd (HandleItem wr item d s))) =
        nths (writers d) (- {j. write_fails wr buf (writers d) s j}) \<and>
      length (writers (fst (snd (HandleItem wr item d s)))) =
        length (writers d) - card {j. write_fails wr buf (writers d) s j})"
  using writeToAll_writers[of wr buf d s] card_failed[of "writers d" wr buf s]
    HandleItem_writers[of d item buf wr s]
  by simp

text \<open>
  Four sinks of which the second and the fourth are broken: the first and the third
  remain, in that order.
\<close>

theorem fanout_compaction_witness:
  "FrameItem (dfw_format demo_dfw) ''ab'' = Inr ''ab;'' \<and>
   writers (fst (snd (HandleItem demo_Write ''ab'' demo_dfw ([11, 13], [])))) = [10, 12] \<and>
   nths (writers demo_dfw)
     (- {j. write_fails demo_Write ''ab;'' (writers demo_dfw) ([11, 13], []) j}) = [10, 12] \<and>
   length (writers demo_dfw)
     - card {j. write_fails demo_Write ''ab;'' (writers demo_dfw) ([11, 13], []) j} = 2"
proof -
  have fr: "FrameItem (dfw_format demo_dfw) ''ab'' = Inr ''ab;''"
    by (simp add: demo_dfw_def demo_format_def)
  have ev: "writers (fst (snd (HandleItem demo_Write ''ab'' demo_dfw ([11, 13], [])))) = [10, 12]"
    by (simp add: HandleItem_def writeToAll_def demo_dfw_def demo_format_def demo_Write_def)
  note th = fanout_compaction[of demo_Write "''ab;''" demo_dfw "([11, 13], [])" "''ab''"]
  have a: "writers (fst (snd (HandleItem demo_Write ''ab'' demo_dfw ([11, 13], [])))) =
      nths (writers demo_dfw)
        (- {j. write_fails demo_Write ''ab;'' (writers demo_dfw) ([11, 13], []) j})"
    using th fr by blast
  have b: "length (writers (fst (snd (HandleItem demo_Write ''ab'' demo_dfw ([11, 13], []))))) =
      length (writers demo_dfw)
        - card {j. write_fails demo_Write ''ab;'' (writers demo_dfw) ([11, 13], []) j}"
    using th fr by blast
  have c: "length (writers (fst (snd (HandleItem demo_Write ''ab'' demo_dfw ([11, 13], []))))) = 2"
    by (simp only: ev) simp
  show ?thesis using fr ev a b c by metis
qed

section \<open>The result of HandleItem\<close>

lemma nths_empty_iff:
  "(nths ws (- {j. write_fails wr buf ws s j}) = []) =
     (\<forall>j < length ws. write_fails wr buf ws s j)"
proof -
  have "(nths ws (- {j. write_fails wr buf ws s j}) = []) =
      (set (nths ws (- {j. write_fails wr buf ws s j})) = {})"
    by simp
  also have "\<dots> = (\<forall>j < length ws. write_fails wr buf ws s j)"
    by (auto simp: set_nths)
  finally show ?thesis .
qed

text \<open>
  Claim C7, as amended. \<open>HandleItem\<close> on a fan-out without sinks returns the
  "all writers done" error. On a fan-out with sinks, an item that cannot be framed makes
  it return the framing error with the sink list as it was. When the item is framed,
  it returns the "all writers done" error exactly when no sink remains after the call,
  which is when the write to every sink failed, and \<open>nil\<close> when a sink remains: no
  error of a sink's write is returned.
\<close>

theorem HandleItem_result:
  "(writers d = [] \<longrightarrow> HandleItem wr item d s = (Some ErrDefaultFrameWatcherDone, d, s)) \<and>
   (writers d \<noteq> [] \<and> FrameItem (dfw_format d) item = Inl e \<longrightarrow>
      HandleItem wr item d s = (Some e, d, s)) \<and>
   (FrameItem (dfw_format d) item = Inr buf \<longrightarrow>
      fst (HandleItem wr item d s) =
        (if writers (fst (snd (HandleItem wr item d s))) = []
         then Some ErrDefaultFrameWatcherDone else None) \<and>
      (writers (fst (snd (HandleItem wr item d s))) = []) =
        (\<forall>j < length (writers d). write_fails wr buf (writers d) s j))"
proof (intro conjI impI)
  assume "writers d = []"
  then show "HandleItem wr item d s = (Some ErrDefaultFrameWatcherDone, d, s)"
    by (simp add: HandleItem_def)
next
  assume "writers d \<noteq> [] \<and> FrameItem (dfw_format d) item = Inl e"
  then show "HandleItem wr item d s = (Some e, d, s)"
    by (simp add: HandleItem_def)
next
  assume fr: "FrameItem (dfw_format d) item = Inr buf"
  show "fst (HandleItem wr item d s) =
      (if writers (fst (snd (HandleItem wr item d s))) = []
       then Some ErrDefaultFrameWatcherDone else None)"
  proof (cases "writers d = []")
    case True
    then show ?thesis by (simp add: HandleItem_def)
  next
    case False
    then show ?thesis
      using fr writeToAll_error[of wr buf d s] by (simp add: HandleItem_def)
  qed
next
  assume fr: "FrameItem (dfw_format d) item = Inr buf"
  show "(writers (fst (snd (HandleItem wr item d s))) = []) =
      (\<forall>j < length (writers d). write_fails wr buf (writers d) s j)"
    using HandleItem_writers[OF fr, of wr s] nths_empty_iff[of "writers d" wr buf s]
    by simp
qed

text \<open>
  The four cases on the example format: a framing error, no sinks, the only sink
  broken, and two sinks of four broken.
\<close>

theorem HandleItem_result_witness:
  "writers demo_dfw \<noteq> [] \<and> FrameItem (dfw_format demo_dfw) ''!'' = Inl (ErrOther ''frame'') \<and>
   HandleItem demo_Write ''!'' demo_dfw ([], []) = (Some (ErrOther ''frame''), demo_dfw, ([], [])) \<and>
   writers (demo_dfw\<lparr>writers := []\<rparr>) = [] \<and>
   HandleItem demo_Write ''ab'' (demo_dfw\<lparr>writers := []\<rparr>) ([], []) =
     (Some ErrDefaultFrameWatcherDone, demo_dfw\<lparr>writers := []\<rparr>, ([], [])) \<and>
   FrameItem (dfw_format demo_dfw1) ''ab'' = Inr ''ab;'' \<and>
   fst (HandleItem demo_Write ''ab'' demo_dfw1 ([10], [])) = Some ErrDefaultFrameWatcherDone \<and>
   fst (HandleItem demo_Write ''ab'' demo_dfw ([11, 13], [])) = None"
proof -
  have h1: "writers demo_dfw \<noteq> [] \<and>
      FrameItem (dfw_format demo_dfw) ''!'' = Inl (ErrOther ''frame'')"
    by (simp add: demo_dfw_def demo_format_def)
  have h2: "writers (demo_dfw\<lparr>writers := []\<rparr>) = []" by simp
  have h3: "FrameItem (dfw_format demo_dfw1) ''ab'' = Inr ''ab;''"
    by (simp add: demo_dfw1_def demo_format_def)
  have h4: "FrameItem (dfw_format demo_dfw) ''ab'' = Inr ''ab;''"
    by (simp add: demo_dfw_def demo_format_def)
  have e3: "writers (fst (snd (HandleItem demo_Write ''ab'' demo_dfw1 ([10], [])))) = []"
    by (simp add: HandleItem_def writeToAll_def demo_dfw1_def demo_format_def demo_Write_def)
  have e4: "writers (fst (snd (HandleItem demo_Write ''ab'' demo_dfw ([11, 13], [])))) \<noteq> []"
    by (simp add: HandleItem_def writeToAll_def demo_dfw_def demo_format_def demo_Write_def)
  have a: "HandleItem demo_Write ''!'' demo_dfw ([], []) =
      (Some (ErrOther ''frame''), demo_dfw, ([], []))"
    using HandleItem_result[of demo_dfw demo_Write "''!''" "([], [])" "ErrOther ''frame''"] h1
    by blast
  have b: "HandleItem demo_Write ''ab'' (demo_dfw\<lparr>writers := []\<rparr>) ([], []) =
      (Some ErrDefaultFrameWatcherDone, demo_dfw\<lparr>writers := []\<rparr>, ([], []))"
    using HandleItem_result[of "demo_dfw\<lparr>writers := []\<rparr>" demo_Write "''ab''" "([], [])"] h2
    by blast
  have c: "fst (HandleItem demo_Write ''ab'' demo_dfw1 ([10], [])) = Some ErrDefaultFrameWatcherDone"
    using HandleItem_result[of demo_dfw1 demo_Write "''ab''" "([10], [])" _ "''ab;''"] h3 e3
    by simp
  have d: "fst (HandleItem demo_Write ''ab'' demo_dfw ([11, 13], [])) = None"
    using HandleItem_result[of demo_dfw demo_Write "''ab''" "([11, 13], [])" _ "''ab;''"] h4 e4
    by simp
  show ?thesis using h1 h2 h3 a b c d by blast
qed

text \<open>
  Claim C7 as stated fails: the one sink survives the call and \<open>HandleItem\<close> does
  not return \<open>nil\<close>, because the item could not be framed.
\<close>

theorem HandleItem_survivor_not_nil:
  "writers (fst (snd (HandleItem demo_Write ''!'' demo_dfw1 ([], [])))) = [10] \<and>
   fst (HandleItem demo_Write ''!'' demo_dfw1 ([], [])) = Some (ErrOther ''frame'')"
  by (simp add: HandleItem_def demo_dfw1_def demo_format_def)

section \<open>The format channel\<close>

lemma demo_gw_eq:
  "demo_gw = \<lparr>gw_format = demo_format, dfw = \<lparr>dfw_format = demo_format, writers = [10]\<rparr>,
      watchers = [OwnFrameWatcher]\<rparr>"
  by (simp add: demo_gw_def marshaledWatcher_init_def defaultFrameWatcher_init_def
      newMarshaledWatcher_def demo_source_def)

lemma demo_gw_unframed_eq:
  "demo_gw_unframed =
     \<lparr>gw_format = demo_format, dfw = \<lparr>dfw_format = demo_format, writers = [10]\<rparr>,
      watchers = []\<rparr>"
  by (simp add: demo_gw_unframed_def demo_gw_eq marshaledWatcher_emit_def HandleItem_def
      demo_format_def)

lemma demo_gw_reattached_eq:
  "demo_gw_reattached =
     \<lparr>gw_format = demo_format, dfw = \<lparr>dfw_format = demo_format, writers = [10, 11]\<rparr>,
      watchers = []\<rparr>"
  by (simp add: demo_gw_reattached_def demo_gw_unframed_eq marshaledWatcher_init_def
      defaultFrameWatcher_init_def demo_source_def)

text \<open>
  Claim C5, on the code: a channel with one sink is sent an item that its format cannot
  frame. The fan-out is dropped as a consumer and keeps its sink; the attach of a second
  sink succeeds and leaves two sinks, which is not one, so the fan-out is not registered
  again, and the next item, which the format marshals and frames, reaches no sink:
  \<open>emit\<close> returns \<open>false\<close> and nothing is written.
\<close>

theorem reattach_after_framing_error:
  "marshaledWatcher_emit demo_Write 1 demo_gw ([], []) = (False, demo_gw_unframed, ([], [])) \<and>
   writers (dfw demo_gw_unframed) = [10] \<and> watchers demo_gw_unframed = [] \<and>
   marshaledWatcher_init demo_Write demo_source 11 demo_gw_unframed ([], []) =
     (None, demo_gw_reattached, ([], [])) \<and>
   writers (dfw demo_gw_reattached) = [10, 11] \<and> watchers demo_gw_reattached = [] \<and>
   marshaledWatcher_emit demo_Write 2 demo_gw_reattached ([], []) =
     (False, demo_gw_reattached, ([], []))"
proof -
  have a: "marshaledWatcher_emit demo_Write 1 demo_gw ([], []) = (False, demo_gw_unframed, ([], []))"
    unfolding demo_gw_unframed_eq
    by (simp add: demo_gw_eq marshaledWatcher_emit_def HandleItem_def demo_format_def)
  have b: "marshaledWatcher_init demo_Write demo_source 11 demo_gw_unframed ([], []) =
      (None, demo_gw_reattached, ([], []))"
    unfolding demo_gw_reattached_eq
    by (simp add: demo_gw_unframed_eq marshaledWatcher_init_def defaultFrameWatcher_init_def
        demo_source_def)
  have c: "marshaledWatcher_emit demo_Write 2 demo_gw_reattached ([], []) =
      (False, demo_gw_reattached, ([], []))"
    by (simp add: demo_gw_reattached_eq marshaledWatcher_emit_def)
  show ?thesis using a b c by (simp add: demo_gw_unframed_eq demo_gw_reattached_eq)
qed

lemma emit_registered:
  assumes w: "watchers gw = [OwnFrameWatcher]"
    and m: "MarshalItem (gw_format gw) data = Inr item"
  shows "fst (marshaledWatcher_emit wr data gw s) = (fst (HandleItem wr item (dfw gw) s) = None) \<and>
    dfw (fst (snd (marshaledWatcher_emit wr data gw s))) = fst (snd (HandleItem wr item (dfw gw) s))"
proof (cases "HandleItem wr item (dfw gw) s")
  case (fields e d' s')
  then show ?thesis using w m
    by (cases e) (simp_all add: marshaledWatcher_emit_def Let_def)
qed

text \<open>
  Claim C2, as amended. When the item cannot be marshaled, \<open>emit\<close> returns
  \<open>false\<close> and leaves the channel and the sinks as they were. On a channel whose
  fan-out is registered and has a sink, an item that is marshaled and framed makes
  \<open>emit\<close> return whether a sink remains after the call.
\<close>

theorem emit_reports_sinks:
  "(MarshalItem (gw_format gw) data = Inl e \<longrightarrow>
      marshaledWatcher_emit wr data gw s = (False, gw, s)) \<and>
   (watchers gw = [OwnFrameWatcher] \<and> writers (dfw gw) \<noteq> [] \<and>
    MarshalItem (gw_format gw) data = Inr item \<and>
    FrameItem (dfw_format (dfw gw)) item = Inr buf \<longrightarrow>
      fst (marshaledWatcher_emit wr data gw s) =
        (writers (dfw (fst (snd (marshaledWatcher_emit wr data gw s)))) \<noteq> []))"
proof (intro conjI impI)
  assume "MarshalItem (gw_format gw) data = Inl e"
  then show "marshaledWatcher_emit wr data gw s = (False, gw, s)"
    by (simp add: marshaledWatcher_emit_def)
next
  assume h: "watchers gw = [OwnFrameWatcher] \<and> writers (dfw gw) \<noteq> [] \<and>
    MarshalItem (gw_format gw) data = Inr item \<and>
    FrameItem (dfw_format (dfw gw)) item = Inr buf"
  have hi: "HandleItem wr item (dfw gw) s = writeToAll wr buf (dfw gw) s"
    using h by (simp add: HandleItem_def)
  have er: "fst (writeToAll wr buf (dfw gw) s) =
      (if writers (fst (snd (writeToAll wr buf (dfw gw) s))) = []
       then Some ErrDefaultFrameWatcherDone else None)"
    using writeToAll_error[of wr buf "dfw gw" s] h by simp
  show "fst (marshaledWatcher_emit wr data gw s) =
      (writers (dfw (fst (snd (marshaledWatcher_emit wr data gw s)))) \<noteq> [])"
    using emit_registered[of gw data item wr s] h hi er by simp
qed

theorem emit_reports_sinks_witness:
  "MarshalItem (gw_format demo_gw) 0 = Inl (ErrOther ''marshal'') \<and>
   marshaledWatcher_emit demo_Write 0 demo_gw ([], []) = (False, demo_gw, ([], [])) \<and>
   watchers demo_gw = [OwnFrameWatcher] \<and> writers (dfw demo_gw) \<noteq> [] \<and>
   MarshalItem (gw_format demo_gw) 2 = Inr ''xx'' \<and>
   FrameItem (dfw_format (dfw demo_gw)) ''xx'' = Inr ''xx;'' \<and>
   fst (marshaledWatcher_emit demo_Write 2 demo_gw ([], [])) =
     (writers (dfw (fst (snd (marshaledWatcher_emit demo_Write 2 demo_gw ([], []))))) \<noteq> []) \<and>
   fst (marshaledWatcher_emit demo_Write 2 demo_gw ([], []))"
proof -
  have h1: "MarshalItem (gw_format demo_gw) 0 = Inl (ErrOther ''marshal'')"
    by (simp add: demo_gw_eq demo_format_def)
  have h2: "watchers demo_gw = [OwnFrameWatcher] \<and> writers (dfw demo_gw) \<noteq> [] \<and>
      MarshalItem (gw_format demo_gw) 2 = Inr ''xx'' \<and>
      FrameItem (dfw_format (dfw demo_gw)) ''xx'' = Inr ''xx;''"
    by (simp add: demo_gw_eq demo_format_def numeral_2_eq_2)
  have ev: "fst (marshaledWatcher_emit demo_Write 2 demo_gw ([], []))"
    by (simp add: demo_gw_eq marshaledWatcher_emit_def HandleItem_def writeToAll_def
        demo_format_def demo_Write_def numeral_2_eq_2)
  have a: "marshaledWatcher_emit demo_Write 0 demo_gw ([], []) = (False, demo_gw, ([], []))"
    using emit_reports_sinks[of demo_gw 0 "ErrOther ''marshal''" demo_Write "([], [])"] h1
    by blast
  have b: "fst (marshaledWatcher_emit demo_Write 2 demo_gw ([], [])) =
      (writers (dfw (fst (snd (marshaledWatcher_emit demo_Write 2 demo_gw ([], []))))) \<noteq> [])"
    using emit_reports_sinks[of demo_gw 2 _ demo_Write "([], [])" "''xx''" "''xx;''"] h2
    by blast
  show ?thesis using h1 h2 ev a b by blast
qed

text \<open>
  Claim C2 as stated fails: the channel has its sink attached, the item cannot be
  marshaled, nothing is written and the sink stays attached, and \<open>emit\<close> returns
  \<open>false\<close>, which does not report that a sink remains.
\<close>

theorem emit_marshal_error_reports_false:
  "watchers demo_gw = [OwnFrameWatcher] \<and>
   fst (marshaledWatcher_emit demo_Write 0 demo_gw ([], [])) = False \<and>
   writers (dfw (fst (snd (marshaledWatcher_emit demo_Write 0 demo_gw ([], []))))) = [10] \<and>
   snd (snd (marshaledWatcher_emit demo_Write 0 demo_gw ([], []))) = ([], [])"
  by (simp add: demo_gw_eq marshaledWatcher_emit_def demo_format_def)

section \<open>The multiplexer going idle\<close>




lemma demo_mds_eq:
  "demo_mds = \<lparr>source = demo_source, formats = Map.empty, formatNames = [''json''],
     mds_watchers = [''json'' \<mapsto> newMarshaledWatcher demo_format], watching = False\<rparr>"
  by (simp add: demo_mds_def NewMarshaledDataSource_def demo_source_def)


lemma ToLower_json: "ToLower ''json'' = ''json''"
  by code_simp




section \<open>Format names\<close>

text \<open>
  Claim C1, on the code: a multiplexer constructed with an empty map of formats lists
  \<open>json\<close> among its format names and accepts \<open>Watch("json", w)\<close>, and
  \<open>Get("json", w)\<close> fails with \<open>ErrUnsupportedFormat\<close>: \<open>Get\<close> looks the
  name up in the map the constructor was given, where the default is not stored.
\<close>

theorem Get_default_json_unsupported:
  "''json'' \<in> set (Formats demo_mds) \<and>
   fst (Watch demo_Write ''json'' 10 demo_mds ([], [])) = None \<and>
   Get demo_Write ''json'' 10 demo_mds ([], []) = (Some ErrUnsupportedFormat, ([], []))"
  by (simp add: demo_mds_eq Formats_def Watch_def Get_def ToLower_json marshaledWatcher_init_def
      defaultFrameWatcher_init_def demo_source_def newMarshaledWatcher_def)










section \<open>The coalescing buffer\<close>

lemma Write_open:
  "\<not> closed cb \<Longrightarrow>
   snd (Write q cb) =
     (if q \<noteq> [] \<and> \<not> pending cb
      then cb\<lparr>Buffer := Buffer cb @ q, pending := True, ready := Suc (ready cb)\<rparr>
      else cb\<lparr>Buffer := Buffer cb @ q\<rparr>)"
  by (simp add: Write_def Let_def)

lemma Writes_pending:
  "\<not> closed cb \<Longrightarrow> pending cb \<Longrightarrow>
   ready (Writes qs cb) = ready cb \<and> pending (Writes qs cb) \<and> \<not> closed (Writes qs cb) \<and>
   Buffer (Writes qs cb) = Buffer cb @ concat qs"
proof (induction qs arbitrary: cb)
  case Nil
  then show ?case by simp
next
  case (Cons q qs)
  have st: "snd (Write q cb) = cb\<lparr>Buffer := Buffer cb @ q\<rparr>"
    using Cons.prems by (simp add: Write_open)
  show ?case using Cons.IH[of "cb\<lparr>Buffer := Buffer cb @ q\<rparr>"] Cons.prems st by simp
qed

lemma Writes_idle:
  "\<not> closed cb \<Longrightarrow> \<not> pending cb \<Longrightarrow> \<exists>q \<in> set qs. q \<noteq> [] \<Longrightarrow>
   ready (Writes qs cb) = Suc (ready cb) \<and> pending (Writes qs cb) \<and> \<not> closed (Writes qs cb) \<and>
   Buffer (Writes qs cb) = Buffer cb @ concat qs"
proof (induction qs arbitrary: cb)
  case Nil
  then show ?case by simp
next
  case (Cons q qs)
  show ?case
  proof (cases "q = []")
    case True
    then have st: "snd (Write q cb) = cb" using Cons.prems by (simp add: Write_open)
    have "\<exists>q \<in> set qs. q \<noteq> []" using Cons.prems(3) True by auto
    then show ?thesis using Cons.IH[of cb] Cons.prems st True by simp
  next
    case False
    let ?cb' = "cb\<lparr>Buffer := Buffer cb @ q, pending := True, ready := Suc (ready cb)\<rparr>"
    have st: "snd (Write q cb) = ?cb'" using Cons.prems False by (simp add: Write_open)
    show ?thesis using Writes_pending[of ?cb' qs] Cons.prems st by simp
  qed
qed

lemma drain_result:
  "fst (drain cb) = Buffer cb \<and> Buffer (snd (drain cb)) = [] \<and> \<not> pending (snd (drain cb)) \<and>
   ready (snd (drain cb)) = ready cb \<and> closed (snd (drain cb)) = closed cb"
  by (simp add: drain_def Let_def Reset_def)

text \<open>
  Claim C6. On an open buffer that is not pending, any sequence of \<open>Write\<close> calls of
  which at least one appends a byte sends exactly one notification, whatever the number
  of writes, and leaves the buffer pending. \<open>drain\<close> leaves the buffer with no bytes
  and not pending and sends nothing, so that the next \<open>Write\<close> of one or more bytes
  on the open buffer sends exactly one new notification.
\<close>

theorem coalesced_notification:
  "(\<not> closed cb \<and> \<not> pending cb \<and> (\<exists>q \<in> set qs. q \<noteq> []) \<longrightarrow>
      ready (Writes qs cb) = Suc (ready cb) \<and> pending (Writes qs cb)) \<and>
   Buffer (snd (drain cb)) = [] \<and> \<not> pending (snd (drain cb)) \<and>
   ready (snd (drain cb)) = ready cb \<and>
   (\<not> closed cb \<and> q \<noteq> [] \<longrightarrow>
      ready (snd (Write q (snd (drain cb)))) = Suc (ready cb) \<and>
      pending (snd (Write q (snd (drain cb)))))"
proof (intro conjI impI)
  assume h: "\<not> closed cb \<and> \<not> pending cb \<and> (\<exists>q \<in> set qs. q \<noteq> [])"
  then show "ready (Writes qs cb) = Suc (ready cb)" using Writes_idle[of cb qs] by blast
  from h show "pending (Writes qs cb)" using Writes_idle[of cb qs] by blast
next
  show "Buffer (snd (drain cb)) = []" using drain_result[of cb] by blast
  show "\<not> pending (snd (drain cb))" using drain_result[of cb] by blast
  show "ready (snd (drain cb)) = ready cb" using drain_result[of cb] by blast
next
  assume h: "\<not> closed cb \<and> q \<noteq> []"
  then show "ready (snd (Write q (snd (drain cb)))) = Suc (ready cb)"
    using drain_result[of cb] by (simp add: Write_open)
  from h show "pending (snd (Write q (snd (drain cb))))"
    using drain_result[of cb] by (simp add: Write_open)
qed

text \<open>
  Three writes, one of them empty, then a drain and a fourth write: one notification
  before the drain, a second one after it.
\<close>

theorem coalesced_notification_witness:
  "\<not> closed demo_buf \<and> \<not> pending demo_buf \<and> (\<exists>q \<in> set [''ab'', '''', ''c'']. q \<noteq> []) \<and>
   ready (Writes [''ab'', '''', ''c''] demo_buf) = 1 \<and>
   fst (drain (Writes [''ab'', '''', ''c''] demo_buf)) = ''abc'' \<and>
   Buffer (snd (drain (Writes [''ab'', '''', ''c''] demo_buf))) = [] \<and>
   ready (snd (Write ''d'' (snd (drain (Writes [''ab'', '''', ''c''] demo_buf))))) = 2"
proof -
  let ?qs = "[''ab'', '''', ''c'']"
  have h: "\<not> closed demo_buf \<and> \<not> pending demo_buf \<and> (\<exists>q \<in> set ?qs. q \<noteq> [])"
    by (simp add: demo_buf_def)
  have z: "ready demo_buf = 0" by (simp add: demo_buf_def)
  have a: "ready (Writes ?qs demo_buf) = Suc (ready demo_buf)"
    using coalesced_notification[of demo_buf ?qs] h by blast
  have o: "\<not> closed (Writes ?qs demo_buf)"
    by (simp add: demo_buf_def Write_def Let_def)
  have d: "fst (drain (Writes ?qs demo_buf)) = ''abc''"
    by (simp add: demo_buf_def Write_def drain_def Reset_def Let_def)
  have b: "Buffer (snd (drain (Writes ?qs demo_buf))) = []"
    using coalesced_notification[of "Writes ?qs demo_buf"] by blast
  have c: "ready (snd (Write ''d'' (snd (drain (Writes ?qs demo_buf))))) =
      Suc (ready (Writes ?qs demo_buf))"
    using coalesced_notification[of "Writes ?qs demo_buf" _ "''d''"] o by blast
  show ?thesis using h a b c d z by simp
qed

section \<open>The front door and the indirect server\<close>

text \<open>
  Claim C9. The detector of the auto-protocol server needs one byte. A connection that
  delivers the byte \<open>b\<close> and then \<open>rest\<close> goes to the RESP handler when the test
  for the RESP tag holds of \<open>b\<close> alone and to the HTTP handler otherwise; in both
  cases exactly the one byte \<open>b\<close> has been taken from the connection, and the input
  of the handler is \<open>b\<close> followed by \<open>rest\<close>: no byte is lost or reordered.
\<close>

theorem protocol_detection:
  "Needed (respDetector IsFirstByteRespTag) = 1 \<and>
   fst (NewServer IsFirstByteRespTag (b # rest)) =
     (if IsFirstByteRespTag [b] then RespHandler else HTTPHandler) \<and>
   buffered (snd (NewServer IsFirstByteRespTag (b # rest))) = [b] \<and>
   input_stream (snd (NewServer IsFirstByteRespTag (b # rest))) = b # rest"
  by (simp add: NewServer_def respDetector_def NewReader_def Peek_def input_stream_def Let_def)

text \<open>
  Claim C8, as amended. While the server is unset, \<open>StartOn\<close> and \<open>Stop\<close> fail
  with the "no server configured" error and \<open>Addr\<close> returns the \<open>nil\<close> address;
  once it is set, each of the three returns what the concrete server returns.
\<close>

theorem indirect_server:
  "indirectServer_StartOn cs_StartOn None laddr = (Some ErrNoServer, None) \<and>
   indirectServer_Stop cs_Stop None = (Some ErrNoServer, None) \<and>
   indirectServer_Addr cs_Addr None = None \<and>
   indirectServer_Addr cs_Addr (Some srv) = cs_Addr srv \<and>
   indirectServer_StartOn cs_StartOn (Some srv) laddr =
     (fst (cs_StartOn srv laddr), Some (snd (cs_StartOn srv laddr))) \<and>
   indirectServer_Stop cs_Stop (Some srv) = (fst (cs_Stop srv), Some (snd (cs_Stop srv)))"
  by (simp add: indirectServer_StartOn_def indirectServer_Stop_def indirectServer_Addr_def
      split: prod.splits)

text \<open>
  Claim C8 as stated fails for \<open>Addr\<close>: on the unset handle it returns \<open>nil\<close>,
  which is a value of its result type \<open>net.Addr\<close> and not an error, where
  \<open>StartOn\<close> and \<open>Stop\<close> return the "no server configured" error.
\<close>

theorem indirect_Addr_unset_is_nil:
  "indirectServer_Addr demo_Addr None = None \<and>
   fst (indirectServer_StartOn demo_StartOn None ''localhost:4040'') = Some ErrNoServer \<and>
   fst (indirectServer_Stop demo_Stop None) = Some ErrNoServer"
  by (simp add: indirectServer_StartOn_def indirectServer_Stop_def indirectServer_Addr_def)

end
